theory Spec2Isabelle
  imports Complex_Main
begin

section \<open>Numeric values\<close>

text \<open>
  The arrays of the program hold numpy float64 values. A finite value is modelled by the
  real number it stands for (rounding is not modelled); the three special values are kept,
  because numpy's float division by zero does not raise: it yields an infinity or a NaN,
  which then flows through the rest of the computation. There is one zero, read as +0.
\<close>

datatype fval = Fin real | PInf | NInf | NaN

fun fneg :: "fval \<Rightarrow> fval" where
  "fneg (Fin a) = Fin (- a)"
| "fneg PInf = NInf"
| "fneg NInf = PInf"
| "fneg NaN = NaN"

fun fadd :: "fval \<Rightarrow> fval \<Rightarrow> fval" where
  "fadd (Fin a) (Fin b) = Fin (a + b)"
| "fadd (Fin a) PInf = PInf"
| "fadd (Fin a) NInf = NInf"
| "fadd PInf (Fin b) = PInf"
| "fadd PInf PInf = PInf"
| "fadd PInf NInf = NaN"
| "fadd NInf (Fin b) = NInf"
| "fadd NInf NInf = NInf"
| "fadd NInf PInf = NaN"
| "fadd NaN y = NaN"
| "fadd x NaN = NaN"

definition fsub :: "fval \<Rightarrow> fval \<Rightarrow> fval" where
  "fsub x y = fadd x (fneg y)"

fun fmul :: "fval \<Rightarrow> fval \<Rightarrow> fval" where
  "fmul (Fin a) (Fin b) = Fin (a * b)"
| "fmul (Fin a) PInf = (if a = 0 then NaN else if 0 < a then PInf else NInf)"
| "fmul (Fin a) NInf = (if a = 0 then NaN else if 0 < a then NInf else PInf)"
| "fmul PInf (Fin b) = (if b = 0 then NaN else if 0 < b then PInf else NInf)"
| "fmul NInf (Fin b) = (if b = 0 then NaN else if 0 < b then NInf else PInf)"
| "fmul PInf PInf = PInf"
| "fmul PInf NInf = NInf"
| "fmul NInf PInf = NInf"
| "fmul NInf NInf = PInf"
| "fmul NaN y = NaN"
| "fmul x NaN = NaN"

fun fdiv :: "fval \<Rightarrow> fval \<Rightarrow> fval" where
  "fdiv (Fin a) (Fin b) =
     (if b \<noteq> 0 then Fin (a / b)
      else if a = 0 then NaN else if 0 < a then PInf else NInf)"
| "fdiv (Fin a) PInf = Fin 0"
| "fdiv (Fin a) NInf = Fin 0"
| "fdiv PInf (Fin b) = (if 0 \<le> b then PInf else NInf)"
| "fdiv NInf (Fin b) = (if 0 \<le> b then NInf else PInf)"
| "fdiv PInf PInf = NaN"
| "fdiv PInf NInf = NaN"
| "fdiv NInf PInf = NaN"
| "fdiv NInf NInf = NaN"
| "fdiv NaN y = NaN"
| "fdiv x NaN = NaN"

fun fsqrt :: "fval \<Rightarrow> fval" where
  "fsqrt (Fin a) = (if 0 \<le> a then Fin (sqrt a) else NaN)"
| "fsqrt PInf = PInf"
| "fsqrt NInf = NaN"
| "fsqrt NaN = NaN"

fun fsin :: "fval \<Rightarrow> fval" where
  "fsin (Fin a) = Fin (sin a)"
| "fsin PInf = NaN"
| "fsin NInf = NaN"
| "fsin NaN = NaN"

text \<open>The comparison \<open>x < y\<close> of two floats: false as soon as one side is a NaN.\<close>

fun flt :: "fval \<Rightarrow> fval \<Rightarrow> bool" where
  "flt (Fin a) (Fin b) = (a < b)"
| "flt (Fin a) PInf = True"
| "flt NInf (Fin b) = True"
| "flt NInf PInf = True"
| "flt x y = False"

definition fle :: "fval \<Rightarrow> fval \<Rightarrow> bool" where
  "fle x y = (x \<noteq> NaN \<and> y \<noteq> NaN \<and> \<not> flt y x)"

text \<open>
  \<open>np.clip(x, lo, hi)\<close> is \<open>minimum(maximum(x, lo), hi)\<close>; a NaN stays a NaN.
\<close>

fun clip :: "fval \<Rightarrow> real \<Rightarrow> real \<Rightarrow> fval" where
  "clip (Fin x) lo hi = Fin (min (max x lo) hi)"
| "clip PInf lo hi = Fin hi"
| "clip NInf lo hi = Fin (min lo hi)"
| "clip NaN lo hi = NaN"

section \<open>Errors, vectors and matrices\<close>

text \<open>
  The program defines no exception of its own. What it can raise comes from Python and
  numpy/scipy: an index out of range, and a shape mismatch of two arrays.
\<close>

datatype error = IndexError | ValueError

definition ebind :: "error + 'a \<Rightarrow> ('a \<Rightarrow> error + 'b) \<Rightarrow> error + 'b" where
  "ebind m f = (case m of Inl e \<Rightarrow> Inl e | Inr x \<Rightarrow> f x)"

type_synonym vec = "fval list"
type_synonym matrix = "fval list list"

text \<open>
  An elementwise operation of two 1-D arrays, with numpy's broadcasting: equal lengths,
  or one side of length 1; anything else raises.
\<close>

definition vop :: "(fval \<Rightarrow> fval \<Rightarrow> fval) \<Rightarrow> vec \<Rightarrow> vec \<Rightarrow> error + vec" where
  "vop f xs ys =
     (if length xs = length ys then Inr (map2 f xs ys)
      else if length xs = 1 then Inr (map (f (hd xs)) ys)
      else if length ys = 1 then Inr (map (\<lambda>x. f x (hd ys)) xs)
      else Inl ValueError)"

text \<open>
  The in-place \<open>xs += ys\<close>: the result must have the shape of \<open>xs\<close>, so \<open>ys\<close> has the
  length of \<open>xs\<close> or length 1.
\<close>

definition viadd :: "vec \<Rightarrow> vec \<Rightarrow> error + vec" where
  "viadd xs ys =
     (if length ys = length xs then Inr (map2 fadd xs ys)
      else if length ys = 1 then Inr (map (\<lambda>x. fadd x (hd ys)) xs)
      else Inl ValueError)"

text \<open>A 1-D array and a scalar.\<close>

definition vscale :: "vec \<Rightarrow> fval \<Rightarrow> vec" where
  "vscale xs c = map (\<lambda>x. fmul x c) xs"

definition vdivs :: "vec \<Rightarrow> fval \<Rightarrow> vec" where
  "vdivs xs c = map (\<lambda>x. fdiv x c) xs"

definition fsum :: "vec \<Rightarrow> fval" where
  "fsum xs = foldl fadd (Fin 0) xs"

text \<open>\<open>np.linalg.norm\<close> of a 1-D array.\<close>

definition norm2 :: "vec \<Rightarrow> fval" where
  "norm2 xs = fsqrt (fsum (map (\<lambda>x. fmul x x) xs))"

text \<open>
  A slice \<open>row[a:b]\<close> with non-negative bounds: numpy cuts the bounds to the row and
  never raises.
\<close>

definition slice :: "nat \<Rightarrow> nat \<Rightarrow> 'a list \<Rightarrow> 'a list" where
  "slice a b row = take (b - a) (drop a row)"

text \<open>\<open>path[i, c]\<close> and \<open>path[i, a:b]\<close>: the row index and the column index must exist.\<close>

definition elem :: "matrix \<Rightarrow> nat \<Rightarrow> nat \<Rightarrow> error + fval" where
  "elem m i c =
     (if i < length m \<and> c < length (m ! i) then Inr (m ! i ! c) else Inl IndexError)"

definition row_slice :: "matrix \<Rightarrow> nat \<Rightarrow> nat \<Rightarrow> nat \<Rightarrow> error + vec" where
  "row_slice m i a b = (if i < length m then Inr (slice a b (m ! i)) else Inl IndexError)"

definition ncols :: "matrix \<Rightarrow> nat" where
  "ncols m = (case m of [] \<Rightarrow> 0 | r # _ \<Rightarrow> length r)"

section \<open>Configuration\<close>

text \<open>
  The module \<open>surgicalsim.lib.constants\<close> gives the column layout of a path sample. Its
  values are a parameter of every function below.
\<close>

record config =
  G_TIME_IDX :: nat
  G_GATE_IDX :: nat
  G_NUM_GATE_DIMS :: nat
  G_NUM_GATES :: nat
  G_POS_IDX :: nat
  G_NUM_POS_DIMS :: nat

text \<open>
  The numeric literals of \<open>path_correction.py\<close>: the total duration, the frequency and
  the amplitude of the gate oscillation, and the acceleration limit.
\<close>

record params =
  t_total :: real
  freq :: real
  amp :: real
  a_max :: real

definition source_params :: params where
  "source_params = \<lparr>t_total = 20, freq = 4, amp = 2 / 100, a_max = 1\<rparr>"

section \<open>The segment detector (pathutils.py)\<close>

text \<open>
  \<open>np.argmin\<close> on a 1-D array: the index of the first minimum, where a NaN counts as
  smaller than every number and the first NaN ends the search. On an empty array it
  raises.
\<close>

definition beats :: "fval \<Rightarrow> fval \<Rightarrow> bool" where
  "beats x best = (best \<noteq> NaN \<and> (x = NaN \<or> flt x best))"

fun argmin_scan :: "fval list \<Rightarrow> nat \<Rightarrow> nat \<Rightarrow> fval \<Rightarrow> nat" where
  "argmin_scan [] i bi bv = bi"
| "argmin_scan (x # xs) i bi bv =
     (if beats x bv then argmin_scan xs (Suc i) i x else argmin_scan xs (Suc i) bi bv)"

definition argmin :: "fval list \<Rightarrow> error + nat" where
  "argmin ds = (case ds of [] \<Rightarrow> Inl ValueError | d # rest \<Rightarrow> Inr (argmin_scan rest 1 0 d))"

text \<open>The Euclidean distance of two rows of equal length, as scipy's \<open>cdist\<close> computes it.\<close>

definition euclidean :: "vec \<Rightarrow> vec \<Rightarrow> fval" where
  "euclidean u v = fsqrt (fsum (map2 (\<lambda>a b. fmul (fsub a b) (fsub a b)) u v))"

text \<open>
  \<open>cdist(XA, XB, metric='euclidean')[:,0]\<close>: \<open>cdist\<close> raises when the two matrices differ in
  their number of columns; its result has one row per row of \<open>XA\<close> and one column per row
  of \<open>XB\<close>, so column 0 holds the distance of every row of \<open>XA\<close> to row 0 of \<open>XB\<close>, and
  taking it raises when \<open>XB\<close> has no row. (A matrix without rows is the empty list here,
  so its width is read as 0.)
\<close>

definition cdist_col0 :: "matrix \<Rightarrow> matrix \<Rightarrow> error + fval list" where
  "cdist_col0 XA XB =
     (if ncols XA \<noteq> ncols XB then Inl ValueError
      else case XB of [] \<Rightarrow> Inl IndexError
           | b # _ \<Rightarrow> Inr (map (\<lambda>a. euclidean a b) XA))"

text \<open>
  The array \<open>dist\<close> of \<open>_detect_segments\<close> for the gate \<open>cur_gate\<close>: entry \<open>k\<close> is the
  distance between the tooltip columns of sample \<open>k\<close> (all columns from \<open>G_POS_IDX\<close> on) and
  the gate columns of sample 0.
\<close>

definition gate_dist :: "config \<Rightarrow> matrix \<Rightarrow> nat \<Rightarrow> error + fval list" where
  "gate_dist cfg data cur_gate =
     (let cur_gate_start = G_GATE_IDX cfg + cur_gate * 3;
          cur_gate_end = cur_gate_start + G_NUM_GATE_DIMS cfg
      in cdist_col0 (map (drop (G_POS_IDX cfg)) data)
                    (map (slice cur_gate_start cur_gate_end) data))"

text \<open>One pass of the loop of \<open>_detect_segments\<close>: the segment end of gate \<open>cur_gate\<close>.\<close>

definition segment_end :: "config \<Rightarrow> matrix \<Rightarrow> nat \<Rightarrow> error + nat" where
  "segment_end cfg data cur_gate =
     (if cur_gate = G_NUM_GATES cfg - 1 then Inr (length data)
      else ebind (gate_dist cfg data cur_gate) argmin)"

fun detect_gates :: "config \<Rightarrow> matrix \<Rightarrow> nat list \<Rightarrow> error + nat list" where
  "detect_gates cfg data [] = Inr []"
| "detect_gates cfg data (g # gs) =
     ebind (segment_end cfg data g) (\<lambda>e.
     ebind (detect_gates cfg data gs) (\<lambda>es. Inr (e # es)))"

definition detect_segments :: "config \<Rightarrow> matrix \<Rightarrow> error + nat list" where
  "detect_segments cfg data = detect_gates cfg data [0 ..< G_NUM_GATES cfg]"

section \<open>The gate trajectory generator (path_correction.py)\<close>

text \<open>
  \<open>generate_gate_pos(t, path, segment_num)\<close>. The gate position is a copy of a slice of
  sample 0, so the in-place addition changes the copy: the function returns the new gate
  position together with the array \<open>path\<close> as the call leaves it.
\<close>

definition gate_shift :: "params \<Rightarrow> fval \<Rightarrow> fval" where
  "gate_shift prm t =
     fmul (Fin (amp prm))
       (fsin (fdiv (fmul (fmul (fmul (Fin 2) (Fin pi)) (Fin (freq prm))) t)
                   (Fin (t_total prm))))"

definition generate_gate_pos ::
    "config \<Rightarrow> params \<Rightarrow> fval \<Rightarrow> matrix \<Rightarrow> nat \<Rightarrow> error + (vec \<times> matrix)" where
  "generate_gate_pos cfg prm t path segment_num =
     (let gate_start_col = G_GATE_IDX cfg + G_NUM_GATE_DIMS cfg * segment_num;
          gate_end_col = gate_start_col + G_NUM_POS_DIMS cfg
      in ebind (row_slice path 0 gate_start_col gate_end_col) (\<lambda>gate_pos.
         ebind (viadd gate_pos [Fin 0, gate_shift prm t, Fin 0]) (\<lambda>gate_pos'.
         Inr (gate_pos', path))))"

section \<open>The trajectory corrector (path_correction.py)\<close>

record state =
  new_path :: "vec list"
  x_path_offset :: vec
  v_curr :: vec

text \<open>
  \<open>new_path\<close> starts as \<open>None\<close> (the empty list here), becomes the first \<open>x_new\<close>, and then
  grows by one row with every \<open>np.vstack\<close>.
\<close>

definition init_state :: state where
  "init_state = \<lparr>new_path = [], x_path_offset = [Fin 0, Fin 0, Fin 0],
                 v_curr = [Fin 0, Fin 0, Fin 0]\<rparr>"

text \<open>
  The search for the current segment: the first \<open>j\<close> with \<open>i <= segments[j]\<close>, and 0 when
  there is none. \<open>segments[seg_idx]\<close> raises when the list has no such entry.
\<close>

fun seg_search :: "nat list \<Rightarrow> nat \<Rightarrow> nat \<Rightarrow> nat" where
  "seg_search [] i j = 0"
| "seg_search (s # ss) i j = (if i \<le> s then j else seg_search ss i (Suc j))"

definition nth_err :: "'a list \<Rightarrow> nat \<Rightarrow> error + 'a" where
  "nth_err xs k = (if k < length xs then Inr (xs ! k) else Inl IndexError)"

text \<open>
  The limit on the acceleration: the norm, the clipped norm, their ratio, and the scaled
  vector. Nothing guards the division.
\<close>

definition clamp_accel :: "real \<Rightarrow> vec \<Rightarrow> vec" where
  "clamp_accel amax a_new =
     (let a_new_norm = norm2 a_new;
          a_new_norm_clipped = clip a_new_norm (- amax) amax;
          ratio_unclipped = fdiv a_new_norm_clipped a_new_norm
      in vscale a_new ratio_unclipped)"

text \<open>
  The body of the loop of \<open>main\<close> for an index \<open>i\<close> other than the last one, in two
  parts. The first part runs from the search of the segment to the new acceleration and
  yields \<open>x_curr\<close>, \<open>dx\<close>, \<open>dt\<close> and \<open>a_new\<close>; the velocity \<open>v\<close> of the recorded path is
  computed and not used.
\<close>

definition step_accel ::
    "config \<Rightarrow> params \<Rightarrow> matrix \<Rightarrow> nat list \<Rightarrow> nat \<Rightarrow> state \<Rightarrow>
     error + (vec \<times> vec \<times> fval \<times> vec)" where
  "step_accel cfg prm path segments i st =
     (let pos_start_col = G_POS_IDX cfg;
          pos_end_col = pos_start_col + G_NUM_POS_DIMS cfg;
          seg_idx = seg_search segments i 0
      in
      ebind (elem path i (G_TIME_IDX cfg)) (\<lambda>tc.
      ebind (elem path (i + 1) (G_TIME_IDX cfg)) (\<lambda>tn.
      let t_curr = fmul tc (Fin (t_total prm));
          t_next = fmul tn (Fin (t_total prm))
      in
      ebind (row_slice path i pos_start_col pos_end_col) (\<lambda>pc.
      ebind (vop fadd pc (x_path_offset st)) (\<lambda>x_curr.
      ebind (row_slice path (i + 1) pos_start_col pos_end_col) (\<lambda>pn.
      ebind (vop fadd pn (x_path_offset st)) (\<lambda>x_next.
      let dt = fsub t_next t_curr in
      ebind (vop fsub x_next x_curr) (\<lambda>dx.
      let v = vdivs dx dt in
      ebind (nth_err segments seg_idx) (\<lambda>seg_end.
      ebind (row_slice path seg_end pos_start_col pos_end_col) (\<lambda>pt.
      ebind (vop fadd pt (x_path_offset st)) (\<lambda>x_target.
      ebind (generate_gate_pos cfg prm t_curr path seg_idx) (\<lambda>gp.
      let x_gate = fst gp in
      ebind (vop fsub x_gate x_target) (\<lambda>delta.
      ebind (vop fadd x_next delta) (\<lambda>x_new.
      ebind (vop fsub x_new x_curr) (\<lambda>d.
      let v_new = vdivs d dt in
      ebind (vop fsub v_new (v_curr st)) (\<lambda>dv.
      let a_new = vdivs dv dt in
      Inr (x_curr, dx, dt, a_new)))))))))))))))))"

text \<open>
  The second part limits the acceleration, integrates it twice, appends the new position
  and updates the velocity and the offset.
\<close>

definition step_integrate ::
    "real \<Rightarrow> state \<Rightarrow> vec \<Rightarrow> vec \<Rightarrow> fval \<Rightarrow> vec \<Rightarrow> error + state" where
  "step_integrate amax st x_curr dx dt a_new0 =
     (let a_new = clamp_accel amax a_new0;
          dv_new = vscale a_new dt
      in
      ebind (vop fadd (v_curr st) dv_new) (\<lambda>v_new.
      let dx_new = vscale v_new dt in
      ebind (vop fadd x_curr dx_new) (\<lambda>x_new.
      ebind (vop fsub dx_new dx) (\<lambda>doff.
      ebind (viadd (x_path_offset st) doff) (\<lambda>off'.
      Inr \<lparr>new_path = new_path st @ [x_new], x_path_offset = off',
           v_curr = v_new\<rparr>)))))"

definition step ::
    "config \<Rightarrow> params \<Rightarrow> matrix \<Rightarrow> nat list \<Rightarrow> nat \<Rightarrow> state \<Rightarrow> error + state" where
  "step cfg prm path segments i st =
     ebind (step_accel cfg prm path segments i st) (\<lambda>(x_curr, dx, dt, a_new).
       step_integrate (a_max prm) st x_curr dx dt a_new)"

text \<open>
  The loop \<open>for i, _ in enumerate(path)\<close>: the last index is skipped, every other index
  runs the body, and an exception ends the run.
\<close>

fun main_loop ::
    "config \<Rightarrow> params \<Rightarrow> matrix \<Rightarrow> nat list \<Rightarrow> nat list \<Rightarrow> state \<Rightarrow> error + state" where
  "main_loop cfg prm path segments [] st = Inr st"
| "main_loop cfg prm path segments (i # is) st =
     (if int i = int (length path) - 1 then main_loop cfg prm path segments is st
      else ebind (step cfg prm path segments i st)
             (main_loop cfg prm path segments is))"

text \<open>
  \<open>full_path[:,pos_start_col:pos_end_col] = new_path\<close> on the copy \<open>path[:-1].copy()\<close>. With
  \<open>new_path\<close> still \<open>None\<close> every addressed entry becomes a NaN. Otherwise \<open>new_path\<close> holds one
  position per step, which is one per row of the copy (the single position of a path of
  two samples is broadcast to the one row), and each position has to be as long as the
  addressed part of its row.
\<close>

definition set_cols :: "nat \<Rightarrow> nat \<Rightarrow> matrix \<Rightarrow> vec list \<Rightarrow> error + matrix" where
  "set_cols a b m vs =
     (if vs = [] then
        Inr (map (\<lambda>row. take a row @ map (\<lambda>_. NaN) (slice a b row) @ drop (max a b) row) m)
      else if length vs = length m \<and>
              (\<forall>k < length m. length (vs ! k) = length (slice a b (m ! k))) then
        Inr (map2 (\<lambda>row v. take a row @ v @ drop (max a b) row) m vs)
      else Inl ValueError)"

record result =
  corrected :: "vec list"
  full_path :: matrix
  path_after :: matrix

text \<open>
  \<open>main\<close>, from the detection of the segments to the companion matrix handed to the
  plot; \<open>path_after\<close> is the input array as the run leaves it (every write goes to a copy).
\<close>

definition main :: "config \<Rightarrow> params \<Rightarrow> matrix \<Rightarrow> error + result" where
  "main cfg prm path =
     ebind (detect_segments cfg path) (\<lambda>segments.
     ebind (main_loop cfg prm path segments [0 ..< length path] init_state) (\<lambda>st.
     ebind (set_cols (G_POS_IDX cfg) (G_POS_IDX cfg + G_NUM_POS_DIMS cfg)
              (butlast path) (new_path st)) (\<lambda>fp.
     Inr \<lparr>corrected = new_path st, full_path = fp, path_after = path\<rparr>)))"

section \<open>Notions used in the statements\<close>

text \<open>A value, or a vector of three values, without infinity and NaN.\<close>

fun is_fin :: "fval \<Rightarrow> bool" where
  "is_fin (Fin a) = True"
| "is_fin x = False"


text \<open>
  The recorded tooltip position of sample \<open>i\<close>, the recorded position of gate \<open>g\<close> in
  sample 0, and the time step from sample \<open>i\<close> to sample \<open>i + 1\<close>, as \<open>main\<close> reads them.
\<close>

definition pos :: "config \<Rightarrow> matrix \<Rightarrow> nat \<Rightarrow> vec" where
  "pos cfg path i =
     slice (G_POS_IDX cfg) (G_POS_IDX cfg + G_NUM_POS_DIMS cfg) (path ! i)"

definition gate0 :: "config \<Rightarrow> matrix \<Rightarrow> nat \<Rightarrow> vec" where
  "gate0 cfg path g =
     slice (G_GATE_IDX cfg + G_NUM_GATE_DIMS cfg * g)
           (G_GATE_IDX cfg + G_NUM_GATE_DIMS cfg * g + G_NUM_POS_DIMS cfg) (path ! 0)"





section \<open>Example configurations and paths\<close>

text \<open>
  A layout with two gates: the time in column 0, gate 1 in columns 1 to 3, gate 2 in
  columns 4 to 6, the tooltip position in columns 7 to 9.
\<close>

definition cfg2 :: config where
  "cfg2 = \<lparr>G_TIME_IDX = 0, G_GATE_IDX = 1, G_NUM_GATE_DIMS = 3, G_NUM_GATES = 2,
           G_POS_IDX = 7, G_NUM_POS_DIMS = 3\<rparr>"

definition tie_path :: matrix where
  "tie_path = [map Fin [0,   0, 0, 0,  9, 9, 9,  2, 0, 0],
               map Fin [1/2, 0, 0, 0,  9, 9, 9,  1, 0, 0],
               map Fin [1,   0, 0, 0,  9, 9, 9,  0, 1, 0]]"

text \<open>
  Parameters with a gate that does not oscillate and a generous acceleration limit.
\<close>

definition prm_zero_amp :: params where
  "prm_zero_amp = \<lparr>t_total = 2, freq = 4, amp = 0, a_max = 100\<rparr>"

text \<open>
  Two samples: the tooltip moves from (0,0,0) to (3,0,0), gate 1 stands at (3,4,0), so
  sample 1 is the closest one and ends the first segment.
\<close>

definition shift_path :: matrix where
  "shift_path = [map Fin [0,   3, 4, 0,  9, 9, 9,  0, 0, 0],
                 map Fin [1/2, 3, 4, 0,  9, 9, 9,  3, 0, 0]]"


text \<open>
  A layout with one gate: the time in column 0, the gate in columns 1 to 3, the tooltip
  position in columns 4 to 6.
\<close>

definition cfg1 :: config where
  "cfg1 = \<lparr>G_TIME_IDX = 0, G_GATE_IDX = 1, G_NUM_GATE_DIMS = 3, G_NUM_GATES = 1,
           G_POS_IDX = 4, G_NUM_POS_DIMS = 3\<rparr>"

text \<open>Samples that hold a time and a tooltip position and no gate at all.\<close>

definition bare_path :: matrix where
  "bare_path = [map Fin [0, 0, 0, 0],
                map Fin [1, 1, 0, 0]]"

text \<open>Samples that hold a time, one gate and a tooltip position.\<close>

definition one_gate_path :: matrix where
  "one_gate_path = [map Fin [0, 1, 0, 0,  0, 0, 0],
                    map Fin [1, 1, 0, 0,  1, 0, 0]]"

text \<open>
  The scenario of the specification for one gate: three samples at the times 0, 0.5
  and 1, the gate at (0,0,0), the tooltip at (0,0,0), (1,0,0) and (2,0,0).
\<close>

definition scenario_path :: matrix where
  "scenario_path = [map Fin [0,   0, 0, 0,  0, 0, 0],
                    map Fin [1/2, 0, 0, 0,  1, 0, 0],
                    map Fin [1,   0, 0, 0,  2, 0, 0]]"

text \<open>
  Three samples whose tooltip starts at gate 1 and moves away from it, so that the first
  segment ends at sample 0.
\<close>

definition late_path :: matrix where
  "late_path = [map Fin [0,    0, 0, 0,  9, 9, 9,  0, 0, 0],
                map Fin [1/20, 0, 0, 0,  9, 9, 9,  1, 0, 0],
                map Fin [1/10, 0, 0, 0,  9, 9, 9,  2, 0, 0]]"

text \<open>Two samples whose tooltip rests at gate 1.\<close>

definition rest_path :: matrix where
  "rest_path = [map Fin [0,    0, 0, 0,  9, 9, 9,  0, 0, 0],
                map Fin [1/20, 0, 0, 0,  9, 9, 9,  0, 0, 0]]"

text \<open>Two samples with the same timestamp.\<close>

definition dup_path :: matrix where
  "dup_path = [map Fin [0, 3, 0, 0,  9, 9, 9,  0, 0, 0],
               map Fin [0, 3, 0, 0,  9, 9, 9,  3, 0, 0]]"

text \<open>
  Two samples with the same timestamp whose tooltip moves along all three axes to
  gate 1.
\<close>

definition inf_path :: matrix where
  "inf_path = [map Fin [0, 1, 1, 1,  9, 9, 9,  0, 0, 0],
               map Fin [0, 1, 1, 1,  9, 9, 9,  1, 1, 1]]"

section \<open>Basic facts\<close>

lemma ebind_Inl [simp]: "ebind (Inl e) f = Inl e"
  by (simp add: ebind_def)

lemma ebind_Inr [simp]: "ebind (Inr x) f = f x"
  by (simp add: ebind_def)

lemma ebind_eq_Inr: "ebind m f = Inr y \<longleftrightarrow> (\<exists>x. m = Inr x \<and> f x = Inr y)"
  by (cases m) simp_all

lemma fadd_zero [simp]: "fadd x (Fin 0) = x"
  by (cases x) simp_all

lemma ebind_Inr_right [simp]: "ebind m Inr = m"
  by (cases m) simp_all

lemma sqrt_9: "sqrt 9 = 3"
  by (rule real_sqrt_unique) simp_all

lemma sqrt_25: "sqrt 25 = 5"
  by (rule real_sqrt_unique) simp_all

lemma upt_2: "[0 ..< 2] = [0, Suc 0]"
  by (simp add: upt_rec)

lemma cfg2_gates: "G_NUM_GATES cfg2 = 2"
  by (simp add: cfg2_def)

lemmas eval_defs = elem_def row_slice_def slice_def vop_def viadd_def vscale_def vdivs_def
  fsub_def fsum_def norm2_def nth_err_def Let_def ncols_def

section \<open>The first minimum wins\<close>




lemma argmin_total: "ds \<noteq> [] \<Longrightarrow> \<exists>k. argmin ds = Inr k"
  by (cases ds) (simp_all add: argmin_def)

lemma detect_gates_nth:
  assumes "detect_gates cfg data gs = Inr es"
  shows "length es = length gs \<and> (\<forall>k<length gs. segment_end cfg data (gs ! k) = Inr (es ! k))"
  using assms
proof (induction gs arbitrary: es)
  case Nil
  then show ?case by simp
next
  case (Cons g gs)
  from Cons.prems obtain e es' where e: "segment_end cfg data g = Inr e"
    and es': "detect_gates cfg data gs = Inr es'" and es: "es = e # es'"
    by (auto simp: ebind_eq_Inr)
  from Cons.IH [OF es'] e es show ?case
    by (auto simp: nth_Cons split: nat.splits)
qed

lemma detect_segments_nth:
  assumes "detect_segments cfg data = Inr segs"
  shows "length segs = G_NUM_GATES cfg \<and>
         (\<forall>g<G_NUM_GATES cfg. segment_end cfg data g = Inr (segs ! g))"
  using detect_gates_nth [of cfg data "[0 ..< G_NUM_GATES cfg]" segs] assms
  by (simp add: detect_segments_def)


lemma gate_dist_tie: "gate_dist cfg2 tie_path 0 = Inr [Fin 2, Fin 1, Fin 1]"
  by (simp add: gate_dist_def cfg2_def tie_path_def cdist_col0_def ncols_def slice_def
      euclidean_def fsum_def fsub_def)

lemma detect_tie: "detect_segments cfg2 tie_path = Inr [1, 3]"
  by (simp add: detect_segments_def segment_end_def gate_dist_tie cfg2_gates upt_2
      argmin_def beats_def) (simp add: tie_path_def)


section \<open>The acceleration limit\<close>

lemma fsum_Fin_aux: "foldl fadd (Fin a) (map Fin ys) = Fin (a + sum_list ys)"
  by (induction ys arbitrary: a) (simp_all add: add.assoc)

lemma fsum_Fin: "fsum (map Fin ys) = Fin (sum_list ys)"
  by (simp add: fsum_def fsum_Fin_aux)

lemma sum_sq_nonneg: "0 \<le> (\<Sum>x\<leftarrow>xs. x * (x::real))"
  by (induction xs) simp_all

lemma norm2_Fin: "norm2 (map Fin xs) = Fin (sqrt (\<Sum>x\<leftarrow>xs. x * x))"
proof -
  have "map (\<lambda>x. fmul x x) (map Fin xs) = map Fin (map (\<lambda>x. x * x) xs)" by simp
  then show ?thesis by (simp add: norm2_def fsum_Fin sum_sq_nonneg del: map_map)
qed

lemma vscale_Fin: "vscale (map Fin xs) (Fin r) = map Fin (map (\<lambda>x. x * r) xs)"
  by (simp add: vscale_def)

lemma sum_sq_scale:
  "sum_list (map (\<lambda>x. x * x) (map (\<lambda>x. x * r) xs)) = r * r * (\<Sum>x\<leftarrow>xs. x * (x::real))"
  by (induction xs) (simp_all add: algebra_simps)

lemma norm2_scaled:
  assumes "0 \<le> r"
  shows "norm2 (map Fin (map (\<lambda>x. x * r) xs)) = Fin (r * sqrt (\<Sum>x\<leftarrow>xs. x * x))"
  unfolding norm2_Fin sum_sq_scale using assms by (simp add: real_sqrt_mult)

lemma clamp_accel_norm_bounded_Fin:
  assumes "0 \<le> amax" and "norm2 (map Fin xs) \<noteq> Fin 0"
  shows "fle (norm2 (clamp_accel amax (map Fin xs))) (Fin amax)"
proof -
  define n where "n = sqrt (\<Sum>x\<leftarrow>xs. x * x)"
  have nn: "norm2 (map Fin xs) = Fin n" by (simp add: norm2_Fin n_def)
  have n0: "n \<noteq> 0" using assms(2) nn by simp
  have npos: "0 < n" using n0 sum_sq_nonneg [of xs] by (simp add: n_def order_less_le)
  define r where "r = min (max n (- amax)) amax / n"
  have r0: "0 \<le> r" using npos assms(1) by (simp add: r_def)
  have ca: "clamp_accel amax (map Fin xs) = map Fin (map (\<lambda>x. x * r) xs)"
    using n0 by (simp add: clamp_accel_def nn r_def vscale_Fin Let_def del: map_map)
  have "norm2 (clamp_accel amax (map Fin xs)) = Fin (r * n)"
    unfolding ca n_def by (rule norm2_scaled [OF r0])
  moreover have "r * n = min (max n (- amax)) amax" using n0 by (simp add: r_def)
  moreover have "min (max n (- amax)) amax \<le> amax" by simp
  ultimately show ?thesis by (simp add: fle_def)
qed

lemma all_fin_map:
  assumes "list_all is_fin a"
  shows "\<exists>xs. a = map Fin xs"
  using assms
proof (induction a)
  case Nil
  then show ?case by simp
next
  case (Cons x a)
  then obtain xs where "a = map Fin xs" by auto
  moreover from Cons.prems obtain r where "x = Fin r" by (cases x) simp_all
  ultimately have "x # a = map Fin (r # xs)" by simp
  then show ?case by (rule exI)
qed

lemma detect_inf: "detect_segments cfg2 inf_path = Inr [1, 2]"
  by (simp add: detect_segments_def segment_end_def gate_dist_def cdist_col0_def euclidean_def
      argmin_def beats_def cfg2_def inf_path_def upt_2 eval_defs)

lemma accel_inf:
  "step_accel cfg2 source_params inf_path [1, 2] 0 init_state =
   Inr ([Fin 0, Fin 0, Fin 0], [Fin 1, Fin 1, Fin 1], Fin 0, [PInf, PInf, PInf])"
  by (simp add: step_accel_def generate_gate_pos_def gate_shift_def cfg2_def inf_path_def
      source_params_def init_state_def eval_defs)

text \<open>
  C6, as stated, fails. The two samples of \<open>inf_path\<close> are finite and have the same
  timestamp; the acceleration of the only step is infinite in every component, so its
  norm is infinite and not zero. The limiting stage clips the norm to \<open>a_max\<close>, the ratio
  is 0, and infinity times 0 is a NaN: the acceleration handed on has no norm that is at
  most \<open>a_max\<close>.
\<close>

theorem clamp_accel_infinite_counterexample:
  "detect_segments cfg2 inf_path = Inr [1, 2] \<and>
   step_accel cfg2 source_params inf_path [1, 2] 0 init_state =
     Inr ([Fin 0, Fin 0, Fin 0], [Fin 1, Fin 1, Fin 1], Fin 0, [PInf, PInf, PInf]) \<and>
   norm2 [PInf, PInf, PInf] = PInf \<and>
   clamp_accel (a_max source_params) [PInf, PInf, PInf] = [NaN, NaN, NaN] \<and>
   \<not> fle (norm2 (clamp_accel (a_max source_params) [PInf, PInf, PInf]))
          (Fin (a_max source_params))"
proof -
  have n: "norm2 [PInf, PInf, PInf] = PInf" by (simp add: norm2_def fsum_def)
  have c: "clamp_accel (a_max source_params) [PInf, PInf, PInf] = [NaN, NaN, NaN]"
    by (simp add: clamp_accel_def n vscale_def)
  have "\<not> fle (norm2 [NaN, NaN, NaN]) (Fin (a_max source_params))"
    by (simp add: fle_def norm2_def fsum_def)
  with detect_inf accel_inf n c show ?thesis by simp
qed

text \<open>
  C6, amended. For a pre-clamp acceleration \<open>a_new\<close> without infinite and NaN components
  and with a non-zero norm, and a limit \<open>a_max \<ge> 0\<close> (1.0 in the source), the acceleration
  that the limiting stage hands on to the re-integration has a norm of at most \<open>a_max\<close>.
\<close>

theorem clamp_accel_finite_norm_bounded:
  assumes "0 \<le> amax" and "list_all is_fin a" and "norm2 a \<noteq> Fin 0"
  shows "fle (norm2 (clamp_accel amax a)) (Fin amax)"
proof -
  from all_fin_map [OF assms(2)] obtain xs where a: "a = map Fin xs" ..
  from assms(3) have "norm2 (map Fin xs) \<noteq> Fin 0" by (simp add: a)
  from clamp_accel_norm_bounded_Fin [OF assms(1) this] show ?thesis by (simp add: a)
qed

theorem clamp_accel_finite_norm_bounded_witness:
  "(0::real) \<le> a_max source_params \<and> list_all is_fin [Fin 3, Fin 4, Fin 0] \<and>
   norm2 [Fin 3, Fin 4, Fin 0] = Fin 5 \<and>
   fle (norm2 (clamp_accel (a_max source_params) [Fin 3, Fin 4, Fin 0]))
       (Fin (a_max source_params))"
proof -
  have a: "(0::real) \<le> a_max source_params" by (simp add: source_params_def)
  have b: "list_all is_fin [Fin 3, Fin 4, Fin 0]" by simp
  have n: "norm2 [Fin 3, Fin 4, Fin 0] = Fin 5" by (simp add: norm2_def fsum_def sqrt_25)
  then have c: "norm2 [Fin 3, Fin 4, Fin 0] \<noteq> Fin 0" by simp
  from clamp_accel_finite_norm_bounded [OF a b c] a b n show ?thesis by blast
qed

section \<open>One step and the whole loop\<close>

lemma step_new_path:
  assumes "step cfg prm path segs i st = Inr st'"
  shows "\<exists>x. new_path st' = new_path st @ [x]"
  using assms by (auto simp: step_def step_integrate_def Let_def split_def ebind_eq_Inr)

lemma main_loop_length:
  assumes "main_loop cfg prm path segs is st = Inr st'"
  shows "length (new_path st') =
         length (new_path st) + length (filter (\<lambda>i. int i \<noteq> int (length path) - 1) is)"
  using assms
proof (induction "is" arbitrary: st)
  case Nil
  then show ?case by simp
next
  case (Cons i "is")
  show ?case
  proof (cases "int i = int (length path) - 1")
    case True
    with Cons show ?thesis by simp
  next
    case False
    with Cons.prems obtain st1 where s1: "step cfg prm path segs i st = Inr st1"
      and r: "main_loop cfg prm path segs is st1 = Inr st'"
      by (auto simp: ebind_eq_Inr)
    from step_new_path [OF s1] have "length (new_path st1) = Suc (length (new_path st))" by auto
    with Cons.IH [OF r] False show ?thesis by simp
  qed
qed

lemma count_not_last: "length (filter (\<lambda>i. int i \<noteq> int n - 1) [0 ..< n]) = n - 1"
proof (cases n)
  case 0
  then show ?thesis by simp
next
  case (Suc m)
  have "filter (\<lambda>i. int i \<noteq> int (Suc m) - 1) [0 ..< m] = [0 ..< m]"
    by (rule filter_True) auto
  with Suc show ?thesis by simp
qed

lemma main_corrected_length:
  assumes "main cfg prm path = Inr r"
  shows "length (corrected r) = length path - 1" and "path_after r = path"
  using assms main_loop_length [of cfg prm path _ "[0 ..< length path]" init_state]
  by (auto simp: main_def ebind_eq_Inr count_not_last init_state_def)


lemma gate_shift_Fin:
  "t_total prm \<noteq> 0 \<Longrightarrow>
   gate_shift prm (Fin t) = Fin (amp prm * sin (2 * pi * freq prm * t / t_total prm))"
  by (simp add: gate_shift_def)














section \<open>The correction without oscillation\<close>

lemma detect_shift: "detect_segments cfg2 shift_path = Inr [1, 2]"
  by (simp add: detect_segments_def segment_end_def gate_dist_def cdist_col0_def euclidean_def
      argmin_def beats_def cfg2_def shift_path_def upt_2 eval_defs)

lemma accel_shift:
  "step_accel cfg2 prm_zero_amp shift_path [1, 2] 0 init_state =
   Inr ([Fin 0, Fin 0, Fin 0], [Fin 3, Fin 0, Fin 0], Fin 1, [Fin 3, Fin 4, Fin 0])"
  by (simp add: step_accel_def generate_gate_pos_def gate_shift_def cfg2_def shift_path_def
      prm_zero_amp_def init_state_def eval_defs)

lemma step_shift:
  "step cfg2 prm_zero_amp shift_path [1, 2] 0 init_state =
   Inr \<lparr>new_path = [[Fin 3, Fin 4, Fin 0]], x_path_offset = [Fin 0, Fin 4, Fin 0],
        v_curr = [Fin 3, Fin 4, Fin 0]\<rparr>"
  unfolding step_def accel_shift
  by (simp add: step_integrate_def clamp_accel_def sqrt_25 prm_zero_amp_def
      init_state_def eval_defs)

lemma shift_len: "length shift_path = 2"
  by (simp add: shift_path_def)

lemma main_shift:
  "main cfg2 prm_zero_amp shift_path =
   Inr \<lparr>corrected = [[Fin 3, Fin 4, Fin 0]],
        full_path = [map Fin [0, 3, 4, 0,  9, 9, 9,  3, 4, 0]],
        path_after = shift_path\<rparr>"
  unfolding main_def detect_shift shift_len upt_2 main_loop.simps step_shift ebind_Inr
  by (simp add: set_cols_def cfg2_def shift_path_def slice_def)








section \<open>The gate position\<close>

text \<open>
  C8. For a path with at least one sample whose gate columns for gate \<open>g\<close> hold three
  values, \<open>generate_gate_pos\<close> with the literals of the source returns these three values
  of sample 0 with only the middle one changed, by the addition of
  \<open>0.02 * sin(2 * pi * 4.0 * t / 20.0)\<close>; the result is a function of \<open>t\<close> and the
  recorded gate position alone, and the path is left as it was.
\<close>

theorem generate_gate_pos_source:
  assumes "path \<noteq> []" and "gate0 cfg path g = [g0, g1, g2]"
  shows "generate_gate_pos cfg source_params t path g =
           Inr ([g0, fadd g1 (gate_shift source_params t), g2], path) \<and>
         gate_shift source_params (Fin \<tau>) = Fin (2 / 100 * sin (2 * pi * 4 * \<tau> / 20))"
  using assms
  by (simp add: generate_gate_pos_def row_slice_def gate0_def viadd_def Let_def gate_shift_Fin
      source_params_def)

theorem generate_gate_pos_source_witness:
  "tie_path \<noteq> [] \<and> gate0 cfg2 tie_path 1 = [Fin 9, Fin 9, Fin 9] \<and>
   generate_gate_pos cfg2 source_params (Fin (5 / 4)) tie_path 1 =
     Inr ([Fin 9, Fin (9 + 2 / 100), Fin 9], tie_path)"
proof -
  have a: "tie_path \<noteq> []" by (simp add: tie_path_def)
  have b: "gate0 cfg2 tie_path 1 = [Fin 9, Fin 9, Fin 9]"
    by (simp add: gate0_def cfg2_def tie_path_def slice_def)
  have c: "sin (2 * pi * 4 * (5 / 4) / 20) = 1" by simp
  from generate_gate_pos_source [OF a b, of "Fin (5 / 4)" "5 / 4"] a b c
  show ?thesis by simp
qed

section \<open>The gate count is not checked\<close>

lemma detect_single:
  assumes "G_NUM_GATES cfg = 1"
  shows "detect_segments cfg data = Inr [length data]"
  using assms by (simp add: detect_segments_def segment_end_def)

lemma detect_first_mismatch:
  assumes g: "1 < G_NUM_GATES cfg" and d: "data \<noteq> []"
    and w: "length (drop (G_POS_IDX cfg) (hd data)) \<noteq>
            length (slice (G_GATE_IDX cfg) (G_GATE_IDX cfg + G_NUM_GATE_DIMS cfg) (hd data))"
  shows "detect_segments cfg data = Inl ValueError"
proof -
  from g have up: "[0 ..< G_NUM_GATES cfg] = 0 # [1 ..< G_NUM_GATES cfg]"
    by (simp add: upt_rec)
  from d obtain r rs where data: "data = r # rs" by (cases data) auto
  have "gate_dist cfg data 0 = Inl ValueError"
    using w by (simp add: gate_dist_def cdist_col0_def ncols_def data)
  then have "segment_end cfg data 0 = Inl ValueError"
    using g by (simp add: segment_end_def)
  then show ?thesis by (simp add: detect_segments_def up)
qed

text \<open>
  C7, as stated, fails. The layout \<open>cfg1\<close> configures one gate, the samples of \<open>bare_path\<close>
  have four columns (a time and a tooltip position, no gate), and \<open>_detect_segments\<close>
  returns the segment end 2 without any error.
\<close>

theorem detect_segments_unchecked_counterexample:
  "G_NUM_GATES cfg1 = 1 \<and> ncols bare_path = 4 \<and> detect_segments cfg1 bare_path = Inr [2]"
  by (simp add: cfg1_def bare_path_def ncols_def detect_segments_def segment_end_def)

text \<open>
  C7, amended. \<open>_detect_segments\<close> never compares the gate count with the samples. With
  one configured gate it returns the length of the path for every path, reading no
  column. With more gates, a first gate whose block of columns (cut to the sample by the
  slice) differs in width from the block of the tooltip columns makes \<open>cdist\<close> raise its
  \<open>ValueError\<close>. Whenever the function returns, it returns one segment end per configured
  gate.
\<close>

theorem detect_segments_unchecked:
  "(G_NUM_GATES cfg = 1 \<longrightarrow> detect_segments cfg data = Inr [length data]) \<and>
   (1 < G_NUM_GATES cfg \<and> data \<noteq> [] \<and>
    length (drop (G_POS_IDX cfg) (hd data)) \<noteq>
      length (slice (G_GATE_IDX cfg) (G_GATE_IDX cfg + G_NUM_GATE_DIMS cfg) (hd data)) \<longrightarrow>
    detect_segments cfg data = Inl ValueError) \<and>
   (\<forall>segs. detect_segments cfg data = Inr segs \<longrightarrow> length segs = G_NUM_GATES cfg)"
  using detect_single detect_first_mismatch detect_segments_nth by blast

theorem detect_segments_unchecked_witness:
  "G_NUM_GATES cfg1 = 1 \<and> detect_segments cfg1 bare_path = Inr [length bare_path] \<and>
   1 < G_NUM_GATES cfg2 \<and> one_gate_path \<noteq> [] \<and>
   length (drop (G_POS_IDX cfg2) (hd one_gate_path)) = 0 \<and>
   length (slice (G_GATE_IDX cfg2) (G_GATE_IDX cfg2 + G_NUM_GATE_DIMS cfg2) (hd one_gate_path)) = 3 \<and>
   detect_segments cfg2 one_gate_path = Inl ValueError \<and>
   detect_segments cfg2 tie_path = Inr [1, 3] \<and> length [1, 3::nat] = G_NUM_GATES cfg2"
proof -
  have a: "G_NUM_GATES cfg1 = 1" by (simp add: cfg1_def)
  have b: "1 < G_NUM_GATES cfg2" "one_gate_path \<noteq> []"
    "length (drop (G_POS_IDX cfg2) (hd one_gate_path)) = 0"
    "length (slice (G_GATE_IDX cfg2) (G_GATE_IDX cfg2 + G_NUM_GATE_DIMS cfg2) (hd one_gate_path)) = 3"
    by (simp_all add: cfg2_def one_gate_path_def slice_def)
  from detect_segments_unchecked [of cfg1 bare_path] a
  have 1: "detect_segments cfg1 bare_path = Inr [length bare_path]" by blast
  from detect_segments_unchecked [of cfg2 one_gate_path] b
  have 2: "detect_segments cfg2 one_gate_path = Inl ValueError" by simp
  from detect_segments_unchecked [of cfg2 tie_path] detect_tie
  have 3: "length [1, 3::nat] = G_NUM_GATES cfg2" by blast
  from a b 1 2 3 detect_tie show ?thesis by simp
qed

section \<open>The companion matrix\<close>

lemma set_cols_row:
  assumes "set_cols a b m vs = Inr fp" and "vs \<noteq> []" and "k < length m"
  shows "length fp = length m \<and>
         fp ! k = take a (m ! k) @ vs ! k @ drop (max a b) (m ! k) \<and>
         length (vs ! k) = length (slice a b (m ! k))"
  using assms by (auto simp: set_cols_def split: if_splits)

lemma replaced_row:
  fixes row :: "'a list"
  assumes "length v = length (slice a (a + n) row)"
  shows "length (take a row @ v @ drop (max a (a + n)) row) = length row"
    and "slice a (a + n) (take a row @ v @ drop (max a (a + n)) row) = v"
    and "c < length row \<Longrightarrow> c < a \<or> a + n \<le> c \<Longrightarrow>
         (take a row @ v @ drop (max a (a + n)) row) ! c = row ! c"
proof -
  have m: "max a (a + n) = a + n" by simp
  have lv: "length v = min n (length row - a)" using assms by (simp add: slice_def)
  show "length (take a row @ v @ drop (max a (a + n)) row) = length row"
    unfolding m using lv by (simp add: min_def)
  show "slice a (a + n) (take a row @ v @ drop (max a (a + n)) row) = v"
  proof (cases "a \<le> length row")
    case True
    then have "drop a (take a row @ v @ drop (a + n) row) = v @ drop (a + n) row" by simp
    moreover have "take n (v @ drop (a + n) row) = v"
      using lv by (cases "n \<le> length row - a") (simp_all add: min_def)
    ultimately show ?thesis unfolding m by (simp add: slice_def)
  next
    case False
    then have "v = []" using lv by simp
    with False show ?thesis unfolding m by (simp add: slice_def)
  qed
  show "(take a row @ v @ drop (max a (a + n)) row) ! c = row ! c"
    if c: "c < length row" and o: "c < a \<or> a + n \<le> c"
  proof (cases "c < a")
    case True
    with c show ?thesis by (simp add: nth_append)
  next
    case False
    with o have ge: "a + n \<le> c" by simp
    with c have ln: "length v = n" and al: "a \<le> length row" using lv by simp_all
    have "(take a row @ v @ drop (a + n) row) ! c = (v @ drop (a + n) row) ! (c - a)"
      using al False by (simp add: nth_append)
    also have "\<dots> = drop (a + n) row ! (c - a - n)"
    proof -
      have "\<not> c - a < length v" using ln ge by simp
      then show ?thesis by (simp add: nth_append ln)
    qed
    also have "\<dots> = row ! c" using ge c by simp
    finally show ?thesis unfolding m .
  qed
qed

text \<open>
  C10. When \<open>main\<close> returns, the input path is as it was, the companion matrix has the
  first \<open>len(path) - 1\<close> rows, and each of its rows \<open>k\<close> has the width of sample \<open>k\<close>, holds
  the corrected position \<open>k\<close> in the tooltip columns and agrees with sample \<open>k\<close> in every
  other column (the time, the gates and whatever follows the tooltip columns).
\<close>

theorem full_path_frame:
  assumes "main cfg prm path = Inr r" and "k < length path - 1"
  shows "path_after r = path \<and>
         length (full_path r) = length path - 1 \<and>
         length (full_path r ! k) = length (path ! k) \<and>
         slice (G_POS_IDX cfg) (G_POS_IDX cfg + G_NUM_POS_DIMS cfg) (full_path r ! k) =
           corrected r ! k \<and>
         (\<forall>c<length (path ! k).
            c < G_POS_IDX cfg \<or> G_POS_IDX cfg + G_NUM_POS_DIMS cfg \<le> c \<longrightarrow>
            full_path r ! k ! c = path ! k ! c)"
proof -
  let ?a = "G_POS_IDX cfg" and ?n = "G_NUM_POS_DIMS cfg"
  from assms(1) obtain segs st fp where
    lp: "main_loop cfg prm path segs [0 ..< length path] init_state = Inr st"
    and sc: "set_cols ?a (?a + ?n) (butlast path) (new_path st) = Inr fp"
    and r: "r = \<lparr>corrected = new_path st, full_path = fp, path_after = path\<rparr>"
    by (auto simp: main_def ebind_eq_Inr)
  from main_loop_length [OF lp] have len: "length (new_path st) = length path - 1"
    by (simp add: count_not_last init_state_def)
  with assms(2) have ne: "new_path st \<noteq> []" by auto
  have kb: "k < length (butlast path)" using assms(2) by simp
  have row: "butlast path ! k = path ! k" using kb by (simp add: nth_butlast)
  from set_cols_row [OF sc ne kb] row
  have fl: "length fp = length path - 1"
    and fk: "fp ! k = take ?a (path ! k) @ new_path st ! k @ drop (max ?a (?a + ?n)) (path ! k)"
    and lv: "length (new_path st ! k) = length (slice ?a (?a + ?n) (path ! k))"
    by simp_all
  show ?thesis
    using replaced_row [OF lv] by (simp add: r fl fk)
qed

theorem full_path_frame_witness:
  "\<exists>r. main cfg2 prm_zero_amp shift_path = Inr r \<and>
       corrected r = [[Fin 3, Fin 4, Fin 0]] \<and>
       path_after r = shift_path \<and>
       length (full_path r) = length shift_path - 1 \<and>
       length (full_path r ! 0) = length (shift_path ! 0) \<and>
       slice (G_POS_IDX cfg2) (G_POS_IDX cfg2 + G_NUM_POS_DIMS cfg2) (full_path r ! 0) =
         corrected r ! 0 \<and>
       full_path r ! 0 ! 0 = shift_path ! 0 ! 0 \<and>
       full_path r ! 0 ! 2 = shift_path ! 0 ! 2"
proof -
  have k: "(0::nat) < length shift_path - 1" by (simp add: shift_len)
  have c: "(0::nat) < length (shift_path ! 0)" "(2::nat) < length (shift_path ! 0)"
    "(0::nat) < G_POS_IDX cfg2" "(2::nat) < G_POS_IDX cfg2"
    by (simp_all add: shift_path_def cfg2_def)
  let ?r = "\<lparr>corrected = [[Fin 3, Fin 4, Fin 0]],
          full_path = [map Fin [0, 3, 4, 0,  9, 9, 9,  3, 4, 0]],
          path_after = shift_path\<rparr>"
  have "corrected ?r = [[Fin 3, Fin 4, Fin 0]]" by simp
  with full_path_frame [OF main_shift k] c main_shift show ?thesis by blast
qed

section \<open>The end of the last segment is not a sample\<close>

lemma step_accel_bad_segment:
  assumes "seg_search segs i 0 < length segs"
    and "length path \<le> segs ! seg_search segs i 0"
  shows "\<exists>e. step_accel cfg prm path segs i st = Inl e"
proof (cases "step_accel cfg prm path segs i st")
  case (Inl e)
  then show ?thesis by blast
next
  case (Inr x)
  then have False using assms
    by (auto simp: step_accel_def Let_def ebind_eq_Inr nth_err_def row_slice_def
        split: if_splits)
  then show ?thesis ..
qed

lemma step_bad_segment:
  assumes "seg_search segs i 0 < length segs"
    and "length path \<le> segs ! seg_search segs i 0"
  shows "\<exists>e. step cfg prm path segs i st = Inl e"
  using step_accel_bad_segment [OF assms, of cfg prm st] by (auto simp: step_def)

text \<open>
  C1. The claim promises \<open>len(path) - 1\<close> corrected positions for every valid path with at
  least two samples. With one configured gate the only segment ends at \<open>len(path)\<close>, the
  first step reads the sample with that index, and \<open>main\<close> fails on every such path. (When
  \<open>main\<close> returns, it does return \<open>len(path) - 1\<close> positions: \<open>main_corrected_length\<close>.)
\<close>

theorem single_gate_never_returns:
  assumes "G_NUM_GATES cfg = 1" and "2 \<le> length path"
  shows "\<exists>e. main cfg prm path = Inl e"
proof -
  have "0 < length path" using assms(2) by (cases path) simp_all
  then have up: "[0 ..< length path] = 0 # [1 ..< length path]"
    by (simp add: upt_rec)
  have nl: "int 0 \<noteq> int (length path) - 1" using assms(2) by simp
  obtain e where "step cfg prm path [length path] 0 init_state = Inl e"
    using step_bad_segment [of "[length path]" 0 path cfg prm init_state] by auto
  then show ?thesis
    using nl by (simp add: main_def detect_single [OF assms(1)] up)
qed

lemma scenario_len: "length scenario_path = 3"
  by (simp add: scenario_path_def)

lemma upt_3: "[0 ..< 3] = [0, Suc 0, Suc (Suc 0)]"
  by (simp add: upt_rec)

lemma accel_scenario:
  "step_accel cfg1 source_params scenario_path [3] 0 init_state = Inl IndexError"
  by (simp add: step_accel_def cfg1_def scenario_path_def init_state_def source_params_def
      eval_defs)

theorem single_gate_never_returns_witness:
  "G_NUM_GATES cfg1 = 1 \<and> 2 \<le> length scenario_path \<and>
   detect_segments cfg1 scenario_path = Inr [3] \<and>
   (\<exists>e. main cfg1 source_params scenario_path = Inl e) \<and>
   main cfg1 source_params scenario_path = Inl IndexError"
proof -
  have g: "G_NUM_GATES cfg1 = 1" by (simp add: cfg1_def)
  have l: "2 \<le> length scenario_path" by (simp add: scenario_len)
  have d: "detect_segments cfg1 scenario_path = Inr [3]"
    using detect_single [OF g, of scenario_path] by (simp add: scenario_len)
  have s: "step cfg1 source_params scenario_path [3] 0 init_state = Inl IndexError"
    by (simp add: step_def accel_scenario)
  have m: "main cfg1 source_params scenario_path = Inl IndexError"
    by (simp add: main_def d scenario_len upt_3 s)
  from single_gate_never_returns [OF g l, of source_params] g l d m show ?thesis by blast
qed

lemma late_len: "length late_path = 3"
  by (simp add: late_path_def)

lemma detect_late: "detect_segments cfg2 late_path = Inr [0, 3]"
  by (simp add: detect_segments_def segment_end_def gate_dist_def cdist_col0_def euclidean_def
      argmin_def beats_def cfg2_def late_path_def upt_2 eval_defs)

lemma accel_late_0:
  "step_accel cfg2 source_params late_path [0, 3] 0 init_state =
   Inr ([Fin 0, Fin 0, Fin 0], [Fin 1, Fin 0, Fin 0], Fin 1, [Fin 1, Fin 0, Fin 0])"
  by (simp add: step_accel_def generate_gate_pos_def gate_shift_def cfg2_def late_path_def
      source_params_def init_state_def eval_defs)

lemma step_late_0:
  "step cfg2 source_params late_path [0, 3] 0 init_state =
   Inr \<lparr>new_path = [[Fin 1, Fin 0, Fin 0]], x_path_offset = [Fin 0, Fin 0, Fin 0],
        v_curr = [Fin 1, Fin 0, Fin 0]\<rparr>"
  unfolding step_def accel_late_0
  by (simp add: step_integrate_def clamp_accel_def source_params_def init_state_def eval_defs)

lemma step_late_1:
  "step cfg2 source_params late_path [0, 3] (Suc 0)
     \<lparr>new_path = [[Fin 1, Fin 0, Fin 0]], x_path_offset = [Fin 0, Fin 0, Fin 0],
      v_curr = [Fin 1, Fin 0, Fin 0]\<rparr> = Inl IndexError"
  by (simp add: step_def step_accel_def cfg2_def late_path_def source_params_def eval_defs)

text \<open>
  C4. The claim says that the segment end read in every step is a sample index. On
  \<open>late_path\<close> the segments end at 0 and 3; step 1 lies in the last segment, whose end 3 is
  the length of the path, and the read of that sample fails.
\<close>

theorem last_segment_end_out_of_range:
  "detect_segments cfg2 late_path = Inr [0, 3] \<and>
   seg_search [0, 3] 1 0 = 1 \<and> [0, 3] ! 1 = length late_path \<and>
   main cfg2 source_params late_path = Inl IndexError"
proof -
  have "main cfg2 source_params late_path = Inl IndexError"
    unfolding main_def detect_late late_len upt_3 main_loop.simps ebind_Inr
    by (simp add: step_late_0 step_late_1)
  then show ?thesis by (simp add: detect_late late_len)
qed

section \<open>Divisions by zero\<close>

lemma detect_rest: "detect_segments cfg2 rest_path = Inr [0, 2]"
  by (simp add: detect_segments_def segment_end_def gate_dist_def cdist_col0_def euclidean_def
      argmin_def beats_def cfg2_def rest_path_def upt_2 eval_defs)

lemma rest_len: "length rest_path = 2"
  by (simp add: rest_path_def)

lemma accel_rest:
  "step_accel cfg2 source_params rest_path [0, 2] 0 init_state =
   Inr ([Fin 0, Fin 0, Fin 0], [Fin 0, Fin 0, Fin 0], Fin 1, [Fin 0, Fin 0, Fin 0])"
  by (simp add: step_accel_def generate_gate_pos_def gate_shift_def cfg2_def rest_path_def
      source_params_def init_state_def eval_defs)

lemma clamp_zero: "clamp_accel amax [Fin 0, Fin 0, Fin 0] = [NaN, NaN, NaN]"
  by (simp add: clamp_accel_def eval_defs)

lemma step_rest:
  "step cfg2 source_params rest_path [0, 2] 0 init_state =
   Inr \<lparr>new_path = [[NaN, NaN, NaN]], x_path_offset = [NaN, NaN, NaN],
        v_curr = [NaN, NaN, NaN]\<rparr>"
  unfolding step_def accel_rest
  by (simp add: step_integrate_def clamp_zero init_state_def eval_defs)

text \<open>
  C2. The claim says that an acceleration of norm zero is left unchanged and that nothing
  is divided by zero. On \<open>rest_path\<close> the acceleration of the only step is (0,0,0); the
  limiting stage divides the clipped norm 0 by the norm 0 and turns the acceleration into
  NaN values, and so the corrected position.
\<close>

theorem zero_norm_gives_nan:
  "step_accel cfg2 source_params rest_path [0, 2] 0 init_state =
     Inr ([Fin 0, Fin 0, Fin 0], [Fin 0, Fin 0, Fin 0], Fin 1, [Fin 0, Fin 0, Fin 0]) \<and>
   norm2 [Fin 0, Fin 0, Fin 0] = Fin 0 \<and>
   clamp_accel (a_max source_params) [Fin 0, Fin 0, Fin 0] = [NaN, NaN, NaN] \<and>
   main cfg2 source_params rest_path =
     Inr \<lparr>corrected = [[NaN, NaN, NaN]],
          full_path = [[Fin 0, Fin 0, Fin 0, Fin 0, Fin 9, Fin 9, Fin 9, NaN, NaN, NaN]],
          path_after = rest_path\<rparr>"
proof -
  have "main cfg2 source_params rest_path =
     Inr \<lparr>corrected = [[NaN, NaN, NaN]],
          full_path = [[Fin 0, Fin 0, Fin 0, Fin 0, Fin 9, Fin 9, Fin 9, NaN, NaN, NaN]],
          path_after = rest_path\<rparr>"
    unfolding main_def detect_rest rest_len upt_2 main_loop.simps step_rest ebind_Inr
    by (simp add: set_cols_def cfg2_def rest_path_def slice_def)
  moreover have "norm2 [Fin 0, Fin 0, Fin 0] = Fin 0" by (simp add: eval_defs)
  ultimately show ?thesis using accel_rest clamp_zero by simp
qed

lemma fadd_NaN_right [simp]: "fadd x NaN = NaN"
  by (cases x) simp_all

lemma fmul_NaN_right [simp]: "fmul x NaN = NaN"
  by (cases x) simp_all

lemma fdiv_zero_cases: "fdiv x (Fin 0) = PInf \<or> fdiv x (Fin 0) = NInf \<or> fdiv x (Fin 0) = NaN"
  by (cases x) simp_all

lemma clamp_nonfinite:
  assumes "a = PInf \<or> a = NInf \<or> a = NaN" and "b = PInf \<or> b = NInf \<or> b = NaN"
    and "c = PInf \<or> c = NInf \<or> c = NaN"
  shows "clamp_accel amax [a, b, c] = [NaN, NaN, NaN]"
  using assms by (auto simp: clamp_accel_def norm2_def fsum_def vscale_def)

lemma len3E:
  assumes "length (v :: 'a list) = 3"
  obtains a b c where "v = [a, b, c]"
  using assms by (auto simp: length_Suc_conv numeral_3_eq_3)

lemma clamp_div_zero:
  assumes "length dv = 3"
  shows "clamp_accel amax (vdivs dv (Fin 0)) = [NaN, NaN, NaN]"
proof -
  from assms obtain a b c where "dv = [a, b, c]" by (rule len3E)
  then show ?thesis
    using clamp_nonfinite [OF fdiv_zero_cases fdiv_zero_cases fdiv_zero_cases]
    by (simp add: vdivs_def)
qed

lemma step_integrate_div_zero:
  assumes "length dv = 3" and "length (v_curr st) = 3" and "length (x_path_offset st) = 3"
    and "length xc = 3" and "length dx = 3"
  shows "step_integrate amax st xc dx (Fin 0) (vdivs dv (Fin 0)) =
         Inr \<lparr>new_path = new_path st @ [[NaN, NaN, NaN]],
              x_path_offset = [NaN, NaN, NaN], v_curr = [NaN, NaN, NaN]\<rparr>"
proof -
  from assms(2) obtain v1 v2 v3 where v: "v_curr st = [v1, v2, v3]" by (rule len3E)
  from assms(3) obtain o1 o2 o3 where off: "x_path_offset st = [o1, o2, o3]" by (rule len3E)
  from assms(4) obtain x1 x2 x3 where x: "xc = [x1, x2, x3]" by (rule len3E)
  from assms(5) obtain e1 e2 e3 where e: "dx = [e1, e2, e3]" by (rule len3E)
  show ?thesis
    by (simp add: step_integrate_def clamp_div_zero [OF assms(1)] v off x e vop_def viadd_def
        vscale_def fsub_def Let_def)
qed

lemma step_accel_equal_timestamps:
  assumes il: "Suc i < length path"
    and t1: "G_TIME_IDX cfg < length (path ! i)"
    and t2: "G_TIME_IDX cfg < length (path ! Suc i)"
    and tc: "path ! i ! G_TIME_IDX cfg = Fin t"
    and tn: "path ! Suc i ! G_TIME_IDX cfg = Fin t"
    and pc: "length (pos cfg path i) = 3"
    and pn: "length (pos cfg path (Suc i)) = 3"
    and sl: "seg_search segs i 0 < length segs"
    and se: "segs ! seg_search segs i 0 < length path"
    and pt: "length (pos cfg path (segs ! seg_search segs i 0)) = 3"
    and gp: "length (gate0 cfg path (seg_search segs i 0)) = 3"
    and off: "length (x_path_offset st) = 3"
    and vc: "length (v_curr st) = 3"
  shows "\<exists>xc dx dv. step_accel cfg prm path segs i st = Inr (xc, dx, Fin 0, vdivs dv (Fin 0)) \<and>
           length xc = 3 \<and> length dx = 3 \<and> length dv = 3"
proof -
  have p0: "0 < length path" using il by (cases path) simp_all
  have e1: "elem path i (G_TIME_IDX cfg) = Inr (Fin t)"
    using il t1 tc by (simp add: elem_def)
  have e2: "elem path (i + 1) (G_TIME_IDX cfg) = Inr (Fin t)"
    using il t2 tn by (simp add: elem_def)
  have r1: "row_slice path i (G_POS_IDX cfg) (G_POS_IDX cfg + G_NUM_POS_DIMS cfg) =
      Inr (pos cfg path i)" using il by (simp add: row_slice_def pos_def)
  have r2: "row_slice path (i + 1) (G_POS_IDX cfg) (G_POS_IDX cfg + G_NUM_POS_DIMS cfg) =
      Inr (pos cfg path (Suc i))" using il by (simp add: row_slice_def pos_def)
  have r3: "row_slice path (segs ! seg_search segs i 0) (G_POS_IDX cfg)
      (G_POS_IDX cfg + G_NUM_POS_DIMS cfg) = Inr (pos cfg path (segs ! seg_search segs i 0))"
    using se by (simp add: row_slice_def pos_def)
  have g: "generate_gate_pos cfg prm (Fin (t * t_total prm)) path
      (seg_search segs i 0) =
      Inr (map2 fadd (gate0 cfg path (seg_search segs i 0))
             [Fin 0, gate_shift prm (Fin (t * t_total prm)), Fin 0], path)"
    using p0 gp by (simp add: generate_gate_pos_def row_slice_def gate0_def viadd_def Let_def)
  have dt: "fsub (fmul (Fin t) (Fin (t_total prm))) (fmul (Fin t) (Fin (t_total prm))) = Fin 0"
    by (simp add: fsub_def)
  have len_vdivs: "\<And>xs c. length (vdivs xs c) = length xs" by (simp add: vdivs_def)
  show ?thesis
    unfolding step_accel_def Let_def e1 e2 r1 r2 ebind_Inr dt
    using sl pc pn pt gp off vc
    apply (simp add: nth_err_def r3 g vop_def len_vdivs)
    apply (rule exI)
    apply (rule conjI)
     apply (rule refl)
    apply (simp add: len_vdivs)
    done
qed

lemma detect_dup: "detect_segments cfg2 dup_path = Inr [1, 2]"
  by (simp add: detect_segments_def segment_end_def gate_dist_def cdist_col0_def euclidean_def
      argmin_def beats_def cfg2_def dup_path_def upt_2 eval_defs sqrt_9)

lemma dup_len: "length dup_path = 2"
  by (simp add: dup_path_def)

lemma step_dup:
  "step cfg2 source_params dup_path [1, 2] 0 init_state =
   Inr \<lparr>new_path = [[NaN, NaN, NaN]], x_path_offset = [NaN, NaN, NaN],
        v_curr = [NaN, NaN, NaN]\<rparr>"
  by (simp add: step_def step_accel_def step_integrate_def clamp_accel_def
      generate_gate_pos_def gate_shift_def cfg2_def dup_path_def
      source_params_def init_state_def eval_defs)

text \<open>
  C3, as stated, fails. The two samples of \<open>dup_path\<close> have the timestamp 0, and \<open>main\<close>
  returns: no error is raised, and the corrected position is NaN in every component.
\<close>

theorem equal_timestamps_counterexample:
  "dup_path ! 0 ! G_TIME_IDX cfg2 = Fin 0 \<and> dup_path ! 1 ! G_TIME_IDX cfg2 = Fin 0 \<and>
   main cfg2 source_params dup_path =
     Inr \<lparr>corrected = [[NaN, NaN, NaN]],
          full_path = [[Fin 0, Fin 3, Fin 0, Fin 0, Fin 9, Fin 9, Fin 9, NaN, NaN, NaN]],
          path_after = dup_path\<rparr>"
proof -
  have "main cfg2 source_params dup_path =
     Inr \<lparr>corrected = [[NaN, NaN, NaN]],
          full_path = [[Fin 0, Fin 3, Fin 0, Fin 0, Fin 9, Fin 9, Fin 9, NaN, NaN, NaN]],
          path_after = dup_path\<rparr>"
    unfolding main_def detect_dup dup_len upt_2 main_loop.simps step_dup ebind_Inr
    by (simp add: set_cols_def cfg2_def dup_path_def slice_def)
  then show ?thesis by (simp add: cfg2_def dup_path_def)
qed

text \<open>
  C3, amended. A step between two samples with the same finite timestamp raises nothing
  because of the time step 0: when its reads are in range (both samples exist and hold a
  time, the tooltip positions, the gate position and the two vectors of the state have
  three values, the segment end is a sample index), the step completes, and the position
  it appends, the new velocity and the new offset are NaN in every component.
\<close>

theorem step_equal_timestamps:
  assumes "Suc i < length path"
    and "G_TIME_IDX cfg < length (path ! i)"
    and "G_TIME_IDX cfg < length (path ! Suc i)"
    and "path ! i ! G_TIME_IDX cfg = Fin t"
    and "path ! Suc i ! G_TIME_IDX cfg = Fin t"
    and "length (pos cfg path i) = 3"
    and "length (pos cfg path (Suc i)) = 3"
    and "seg_search segs i 0 < length segs"
    and "segs ! seg_search segs i 0 < length path"
    and "length (pos cfg path (segs ! seg_search segs i 0)) = 3"
    and "length (gate0 cfg path (seg_search segs i 0)) = 3"
    and "length (x_path_offset st) = 3"
    and "length (v_curr st) = 3"
  shows "step cfg prm path segs i st =
         Inr \<lparr>new_path = new_path st @ [[NaN, NaN, NaN]],
              x_path_offset = [NaN, NaN, NaN], v_curr = [NaN, NaN, NaN]\<rparr>"
proof -
  from step_accel_equal_timestamps [OF assms]
  obtain xc dx dv where
    a: "step_accel cfg prm path segs i st = Inr (xc, dx, Fin 0, vdivs dv (Fin 0))"
    and l: "length xc = 3" "length dx = 3" "length dv = 3" by blast
  show ?thesis
    by (simp add: step_def a step_integrate_div_zero [OF l(3) assms(13) assms(12) l(1) l(2)])
qed

theorem step_equal_timestamps_witness:
  "dup_path ! 0 ! G_TIME_IDX cfg2 = Fin 0 \<and> dup_path ! Suc 0 ! G_TIME_IDX cfg2 = Fin 0 \<and>
   Suc 0 < length dup_path \<and> seg_search [1, 2] 0 0 < length [1, 2::nat] \<and>
   [1, 2] ! seg_search [1, 2] 0 0 < length dup_path \<and>
   step cfg2 source_params dup_path [1, 2] 0 init_state =
     Inr \<lparr>new_path = new_path init_state @ [[NaN, NaN, NaN]],
          x_path_offset = [NaN, NaN, NaN], v_curr = [NaN, NaN, NaN]\<rparr>"
proof -
  have h: "Suc 0 < length dup_path"
    "G_TIME_IDX cfg2 < length (dup_path ! 0)"
    "G_TIME_IDX cfg2 < length (dup_path ! Suc 0)"
    "dup_path ! 0 ! G_TIME_IDX cfg2 = Fin 0"
    "dup_path ! Suc 0 ! G_TIME_IDX cfg2 = Fin 0"
    "length (pos cfg2 dup_path 0) = 3"
    "length (pos cfg2 dup_path (Suc 0)) = 3"
    "seg_search [1, 2] 0 0 < length [1, 2::nat]"
    "[1, 2] ! seg_search [1, 2] 0 0 < length dup_path"
    "length (pos cfg2 dup_path ([1, 2] ! seg_search [1, 2] 0 0)) = 3"
    "length (gate0 cfg2 dup_path (seg_search [1, 2] 0 0)) = 3"
    "length (x_path_offset init_state) = 3"
    "length (v_curr init_state) = 3"
    by (simp_all add: cfg2_def dup_path_def pos_def gate0_def slice_def init_state_def)
  from step_equal_timestamps [OF h, of source_params] h show ?thesis by blast
qed

end
